theory Spec2Isabelle
  imports Main "HOL-Library.AList"
begin

section \<open>Python values, dictionaries and exceptions\<close>

text \<open>
  The serializers and views of badgr-server exchange JSON-like Python values. A
  dictionary keeps its insertion order (the serializers work on \<open>OrderedDict\<close>), so
  it is an association list; \<open>d[k] = v\<close> is \<open>AList.update k v d\<close> (replace in
  place, or append), \<open>d.get(k, None)\<close> is \<open>map_of d k\<close>. \<open>PFile name\<close> is an
  uploaded file object; Django's \<open>File.__bool__\<close> is \<open>bool(self.name)\<close>.
\<close>

datatype pyval =
    PNone
  | PBool bool
  | PInt int
  | PStr string
  | PFile string
  | PList "pyval list"
  | PDict "(string \<times> pyval) list"

type_synonym pydict = "(string \<times> pyval) list"

text \<open>Python truthiness: what \<open>if v\<close> and \<open>not v\<close> test.\<close>

fun truthy :: "pyval \<Rightarrow> bool" where
  "truthy PNone = False"
| "truthy (PBool b) = b"
| "truthy (PInt n) = (n \<noteq> 0)"
| "truthy (PStr s) = (s \<noteq> [])"
| "truthy (PFile name) = (name \<noteq> [])"
| "truthy (PList xs) = (xs \<noteq> [])"
| "truthy (PDict kvs) = (kvs \<noteq> [])"

text \<open>\<open>d.values()\<close>\<close>

definition values_of :: "pydict \<Rightarrow> pyval list" where
  "values_of d = map snd d"

text \<open>
  \<open>django.core.exceptions.ValidationError\<close>, as far as the source reads it: its
  \<open>message\<close> attribute and its \<open>messages\<close> list.
\<close>

datatype django_error = DjangoValidationError (message: string) (messages: "string list")

text \<open>The built-in exceptions that the operations of the source raise.\<close>

datatype py_error = KeyError | IndexError | TypeError | AttributeError | OverflowError

text \<open>
  What a serializer method or a view raises: the REST framework's
  \<open>ValidationError\<close> with its detail, \<open>Http404\<close>, or an exception that the
  method does not catch and that passes through it.
\<close>

datatype exn =
    ValidationError pyval
  | Http404
  | Uncaught_Django django_error
  | Uncaught_Python py_error
  | Uncaught_Other string






section \<open>The model layer as the serializers and views use it\<close>

text \<open>
  A BadgeInstance (assertion) row, with the fields the two source files read or write.
  Timestamps are integers on one time line. \<open>user\<close> is the backpack owner, absent
  for an assertion nobody has claimed.
\<close>

record badge_instance =
  entity_id :: string
  issuer :: string
  badgeclass :: string
  recipient_identifier :: string
  user :: "string option"
  acceptance :: string
  revoked :: bool
  revocation_reason :: pyval
  expires_at :: "int option"
  updated_at :: int

text \<open>An OAuth access token: its user, its application's user and its scope rows.\<close>

record access_token =
  token_user :: string
  application_user :: "string option"
  scopes :: "string list"

record issuer_staff =
  staff_issuer :: string
  staff_user :: string

text \<open>
  Effects a reader of the code can observe besides the tables: a user's
  \<open>publish()\<close>, a read of the clock by \<open>timezone.now()\<close>, and the execution of a
  query by a list serializer.
\<close>

datatype effect = Published string | Clock_read int | Query_run

record world =
  instances :: "badge_instance list"
  tokens :: "access_token list"
  staffs :: "issuer_staff list"
  clock :: int
  effects :: "effect list"

definition log_effect :: "effect \<Rightarrow> world \<Rightarrow> world" where
  "log_effect e w = w\<lparr>effects := effects w @ [e]\<rparr>"

text \<open>
  The ORM's \<open>Model.save()\<close> on the BadgeInstance table: the row of the same identity
  is replaced where it stands, and a row that is not there yet is added. Rows are
  identified by their entity id.
\<close>

fun save_row :: "badge_instance \<Rightarrow> badge_instance list \<Rightarrow> badge_instance list" where
  "save_row i [] = [i]"
| "save_row i (r # rs) = (if entity_id r = entity_id i then i # rs else r # save_row i rs)"

definition save :: "badge_instance \<Rightarrow> world \<Rightarrow> world" where
  "save i w = w\<lparr>instances := save_row i (instances w)\<rparr>"

definition lookup_instance :: "string \<Rightarrow> world \<Rightarrow> badge_instance option" where
  "lookup_instance eid w = find (\<lambda>r. entity_id r = eid) (instances w)"

text \<open>
  Modelled from the spec: \<open>owner.publish()\<close> of the user model, which is not among
  the source files; the spec has it a cache-publish side effect on the owning user. It
  is an effect that the world records.
\<close>

definition publish :: "string \<Rightarrow> world \<Rightarrow> world" where
  "publish u w = log_effect (Published u) w"

text \<open>
  Modelled from the spec: the constant \<open>BadgeInstance.ACCEPTANCE_ACCEPTED\<close> of
  issuer/models.py, which is not among the source files; the spec names the accepted
  state "Accepted".
\<close>

definition ACCEPTANCE_ACCEPTED :: string where
  "ACCEPTANCE_ACCEPTED = ''Accepted''"

section \<open>apps/backpack/serializers\_v2.py: BackpackImportSerializerV2.validate\<close>

definition only_one_message :: string where
  "only_one_message = ''Must provide only one of 'url', 'image' or 'assertion'.''"

text \<open>
  \<^verbatim>\<open>
  def validate(self, attrs):
      if sum(1 if v else 0 for v in attrs.values()) != 1:
          raise serializers.ValidationError("Must provide only one of ...")
      return attrs
  \<close>
\<close>

definition validate :: "pydict \<Rightarrow> exn + pydict" where
  "validate attrs =
     (if sum_list (map (\<lambda>v. if truthy v then 1 else (0::int)) (values_of attrs)) \<noteq> 1
      then Inl (ValidationError (PStr only_one_message))
      else Inr attrs)"

text \<open>The three fields the serializer declares, all with \<open>required=False\<close>.\<close>

definition import_fields :: "string list" where
  "import_fields = [''url'', ''image'', ''assertion'']"

text \<open>A field is set in \<open>attrs\<close> when it is there with a truthy value.\<close>

definition is_set :: "pydict \<Rightarrow> string \<Rightarrow> bool" where
  "is_set attrs f = (case map_of attrs f of None \<Rightarrow> False | Some v \<Rightarrow> truthy v)"

section \<open>apps/backpack/serializers\_v2.py: BackpackAssertionAcceptanceSerializerV2\<close>



text \<open>
  \<^verbatim>\<open>
  def update(self, instance, validated_data):
      instance.acceptance = 'Accepted'
      instance.save()
      owner = instance.user
      if owner:
          owner.publish()
      return instance
  \<close>
\<close>

definition update :: "badge_instance \<Rightarrow> pydict \<Rightarrow> world \<Rightarrow> badge_instance \<times> world" where
  "update instance validated_data w =
     (let instance = instance\<lparr>acceptance := ''Accepted''\<rparr>;
          w = save instance w;
          owner = user instance
      in case owner of
           Some u \<Rightarrow> (instance, publish u w)
         | None \<Rightarrow> (instance, w))"

section \<open>apps/backpack/serializers\_v2.py: BackpackImportSerializerV2.create\<close>

definition duplicate_badge_detail :: pyval where
  "duplicate_badge_detail =
     PList [PDict [(''name'', PStr ''DUPLICATE_BADGE''),
                   (''description'', PStr ''You already have this badge in your backpack'')]]"

text \<open>
  \<^verbatim>\<open>validated_data['imagefile'] = validated_data.pop('image', None)\<close>: the keyword
  arguments handed to the badge-check helper.
\<close>

definition helper_kwargs :: "pydict \<Rightarrow> pydict" where
  "helper_kwargs validated_data =
     (let image = (case map_of validated_data ''image'' of None \<Rightarrow> PNone | Some v \<Rightarrow> v)
      in AList.update ''imagefile'' image (AList.delete ''image'' validated_data))"

text \<open>
  \<open>BadgeCheckHelper.get_or_create_assertion\<close> (issuer/helpers.py) is not among the
  source files: it is a parameter. It returns an instance and whether it created it,
  or raises Django's ValidationError, and may change the tables.
  \<^verbatim>\<open>
  def create(self, validated_data):
      try:
          validated_data['imagefile'] = validated_data.pop('image', None)
          instance, created = BadgeCheckHelper.get_or_create_assertion(**validated_data)
          if not created:
              instance.acceptance = BadgeInstance.ACCEPTANCE_ACCEPTED
              instance.save()
              raise RestframeworkValidationError([{'name': "DUPLICATE_BADGE", 'description': "..."}])
      except DjangoValidationError as e:
          raise RestframeworkValidationError(e.messages)
      return instance
  \<close>
  The REST framework's error is not a Django ValidationError, so the handler lets the
  duplicate-badge error pass.
\<close>

definition create ::
  "(pydict \<Rightarrow> world \<Rightarrow> (django_error + badge_instance \<times> bool) \<times> world)
     \<Rightarrow> pydict \<Rightarrow> world \<Rightarrow> (exn + badge_instance) \<times> world" where
  "create get_or_create_assertion validated_data w =
     (case get_or_create_assertion (helper_kwargs validated_data) w of
        (Inl e, w1) \<Rightarrow> (Inl (ValidationError (PList (map PStr (messages e)))), w1)
      | (Inr (instance, created), w1) \<Rightarrow>
          if \<not> created then
            (let instance = instance\<lparr>acceptance := ACCEPTANCE_ACCEPTED\<rparr>;
                 w2 = save instance w1
             in (Inl (ValidationError duplicate_badge_detail), w2))
          else (Inr instance, w1))"

section \<open>Sample data for the concrete instances\<close>

definition sample_assertion :: "string \<Rightarrow> badge_instance" where
  "sample_assertion eid =
     \<lparr>entity_id = eid, issuer = ''issuer-1'', badgeclass = ''badge-1'',
      recipient_identifier = ''alice@example.org'', user = Some ''alice'',
      acceptance = ''Unaccepted'', revoked = False, revocation_reason = PNone,
      expires_at = None, updated_at = 0\<rparr>"

definition sample_world :: world where
  "sample_world =
     \<lparr>instances = [sample_assertion ''A'', sample_assertion ''B''],
      tokens = [], staffs = [], clock = 100, effects = []\<rparr>"

section \<open>Query parameters\<close>

text \<open>
  \<open>request.query_params\<close> is a \<open>QueryDict\<close>: every key has a list of values.
  \<open>getlist(k, None)\<close> is the list, empty for a key that is not there;
  \<open>get(k, default)\<close> is the last value, or the default for a key that is not
  there or has no value.
\<close>

type_synonym query_dict = "(string \<times> string list) list"

definition getlist :: "query_dict \<Rightarrow> string \<Rightarrow> string list" where
  "getlist qp k = (case map_of qp k of None \<Rightarrow> [] | Some vs \<Rightarrow> vs)"

definition get_param :: "query_dict \<Rightarrow> string \<Rightarrow> string \<Rightarrow> string" where
  "get_param qp k dflt =
     (case map_of qp k of
        None \<Rightarrow> dflt
      | Some vs \<Rightarrow> if vs = [] then dflt else last vs)"

text \<open>
  \<open>str.lower()\<close> on the ASCII letters. No character outside ASCII has a lower case
  among the characters of \<open>1\<close> and \<open>true\<close>, so membership in
  \<open>['1', 'true']\<close> is decided by the ASCII part.
\<close>

definition lower_char :: "char \<Rightarrow> char" where
  "lower_char c =
     (let n = (of_char c :: nat) in if 65 \<le> n \<and> n \<le> 90 then char_of (n + 32) else c)"

definition lower :: "string \<Rightarrow> string" where
  "lower s = map lower_char s"

text \<open>
  A query flag is on when its value, in lower case, is \<open>1\<close> or \<open>true\<close>:
  \<^verbatim>\<open>request.query_params.get(k, '').lower() in ['1', 'true']\<close>.
\<close>

definition query_flag :: "query_dict \<Rightarrow> string \<Rightarrow> bool" where
  "query_flag qp k = (lower (get_param qp k '''') \<in> set [''1'', ''true''])"

section \<open>apps/issuer/api.py: the assertion lists\<close>

text \<open>
  \<open>self.get_object(request, **kwargs)\<close> belongs to the entity framework, which is not
  among the source files: it is a parameter that finds the object of the view's model
  or raises \<open>Http404\<close> (\<open>None\<close> here). A queryset is the list of rows it selects
  from the table.
  \<^verbatim>\<open>
  def get_queryset(self, request=None, **kwargs):        # BadgeInstanceList
      badgeclass = self.get_object(request, **kwargs)
      queryset = BadgeInstance.objects.filter(badgeclass=badgeclass, revoked=False)
      recipients = request.query_params.getlist('recipient', None)
      if recipients:
          queryset = queryset.filter(recipient_identifier__in=recipients)
      return queryset
  \<close>
\<close>

definition BadgeInstanceList_get_queryset ::
  "(world \<Rightarrow> pydict \<Rightarrow> string option) \<Rightarrow> pydict \<Rightarrow> query_dict \<Rightarrow> world
     \<Rightarrow> exn + badge_instance list" where
  "BadgeInstanceList_get_queryset get_object kwargs query_params w =
     (case get_object w kwargs of
        None \<Rightarrow> Inl Http404
      | Some bc \<Rightarrow>
          (let queryset = filter (\<lambda>a. badgeclass a = bc \<and> revoked a = False) (instances w);
               recipients = getlist query_params ''recipient'';
               queryset = (if recipients \<noteq> []
                           then filter (\<lambda>a. recipient_identifier a \<in> set recipients) queryset
                           else queryset)
           in Inr queryset))"

text \<open>
  \<^verbatim>\<open>
  def get_queryset(self, request=None, **kwargs):        # IssuerBadgeInstanceList
      issuer = self.get_object(request, **kwargs)
      queryset = BadgeInstance.objects.filter(issuer=issuer)
      recipients = request.query_params.getlist('recipient', None)
      if recipients:
          queryset = queryset.filter(recipient_identifier__in=recipients)
      if request.query_params.get('include_expired', '').lower() not in ['1', 'true']:
          queryset = queryset.filter(
              Q(expires_at__gte=datetime.datetime.now()) | Q(expires_at__isnull=True))
      if request.query_params.get('include_revoked', '').lower() not in ['1', 'true']:
          queryset = queryset.filter(revoked=False)
      return queryset
  \<close>
  \<open>datetime.datetime.now()\<close> is the clock of the world.
\<close>

definition IssuerBadgeInstanceList_get_queryset ::
  "(world \<Rightarrow> pydict \<Rightarrow> string option) \<Rightarrow> pydict \<Rightarrow> query_dict \<Rightarrow> world
     \<Rightarrow> exn + badge_instance list" where
  "IssuerBadgeInstanceList_get_queryset get_object kwargs query_params w =
     (case get_object w kwargs of
        None \<Rightarrow> Inl Http404
      | Some iss \<Rightarrow>
          (let queryset = filter (\<lambda>a. issuer a = iss) (instances w);
               recipients = getlist query_params ''recipient'';
               queryset = (if recipients \<noteq> []
                           then filter (\<lambda>a. recipient_identifier a \<in> set recipients) queryset
                           else queryset);
               queryset = (if lower (get_param query_params ''include_expired'' '''') \<notin> set [''1'', ''true'']
                           then filter (\<lambda>a. (case expires_at a of
                                                Some t \<Rightarrow> clock w \<le> t | None \<Rightarrow> False)
                                             \<or> expires_at a = None) queryset
                           else queryset);
               queryset = (if lower (get_param query_params ''include_revoked'' '''') \<notin> set [''1'', ''true'']
                           then filter (\<lambda>a. revoked a = False) queryset
                           else queryset)
           in Inr queryset))"

text \<open>An assertion is expired at a time when it has an expiry date before that time.\<close>

definition is_expired :: "int \<Rightarrow> badge_instance \<Rightarrow> bool" where
  "is_expired now a = (case expires_at a of None \<Rightarrow> False | Some t \<Rightarrow> t < now)"

text \<open>The object lookup of the samples: the keyword argument \<open>entity_id\<close> names the object.\<close>

definition sample_get_object :: "world \<Rightarrow> pydict \<Rightarrow> string option" where
  "sample_get_object w kwargs =
     (case map_of kwargs ''entity_id'' of Some (PStr s) \<Rightarrow> Some s | _ \<Rightarrow> None)"

definition sample_rows :: "badge_instance list" where
  "sample_rows =
     [sample_assertion ''A'',
      (sample_assertion ''B'')\<lparr>revoked := True, revocation_reason := PStr ''mistake''\<rparr>,
      (sample_assertion ''C'')\<lparr>expires_at := Some 50\<rparr>,
      (sample_assertion ''D'')\<lparr>expires_at := Some 150, recipient_identifier := ''bob@example.org''\<rparr>]"

section \<open>apps/backpack/serializers\_v2.py: BackpackAssertionSerializerV2.to\_representation\<close>

text \<open>\<open>d[k]\<close> for a string key, \<open>xs[i]\<close> for an index, \<open>x in c\<close> for a string \<open>x\<close>.\<close>

definition getitem_key :: "pyval \<Rightarrow> string \<Rightarrow> py_error + pyval" where
  "getitem_key d k =
     (case d of
        PDict kvs \<Rightarrow> (case map_of kvs k of None \<Rightarrow> Inl KeyError | Some v \<Rightarrow> Inr v)
      | _ \<Rightarrow> Inl TypeError)"

definition getitem_index :: "pyval \<Rightarrow> nat \<Rightarrow> py_error + pyval" where
  "getitem_index xs i =
     (case xs of
        PList vs \<Rightarrow> if i < length vs then Inr (vs ! i) else Inl IndexError
      | PStr s \<Rightarrow> if i < length s then Inr (PStr [s ! i]) else Inl IndexError
      | PDict kvs \<Rightarrow> Inl KeyError
      | _ \<Rightarrow> Inl TypeError)"

fun starts_with :: "string \<Rightarrow> string \<Rightarrow> bool" where
  "starts_with s [] = True"
| "starts_with [] (c # p) = False"
| "starts_with (d # s) (c # p) = (d = c \<and> starts_with s p)"

fun has_substring :: "string \<Rightarrow> string \<Rightarrow> bool" where
  "has_substring [] p = (p = [])"
| "has_substring (d # s) p = (starts_with (d # s) p \<or> has_substring s p)"

definition contains :: "pyval \<Rightarrow> string \<Rightarrow> py_error + bool" where
  "contains c x =
     (case c of
        PList vs \<Rightarrow> Inr (PStr x \<in> set vs)
      | PDict kvs \<Rightarrow> Inr (x \<in> set (map fst kvs))
      | PStr s \<Rightarrow> Inr (has_substring s x)
      | _ \<Rightarrow> Inl TypeError)"

text \<open>\<open>d[k] = v\<close>: the dictionary with the item stored.\<close>

definition setitem :: "pyval \<Rightarrow> string \<Rightarrow> pyval \<Rightarrow> py_error + pyval" where
  "setitem d k v =
     (case d of
        PDict kvs \<Rightarrow> Inr (PDict (AList.update k v kvs))
      | _ \<Rightarrow> Inl TypeError)"

text \<open>
  The two assignments through \<open>instance_data_pointer\<close>, on the object it points to:
  \<^verbatim>\<open>
  if 'badgeclass' in expands:
      instance_data_pointer['badgeclass'] = instance.cached_badgeclass.get_json(...)
      if 'issuer' in expands:
          instance_data_pointer['badgeclass']['issuer'] = instance.cached_issuer.get_json(...)
  \<close>
  The second assignment stores into the badge class JSON that the first one put there.
\<close>

definition expand_pointer :: "pyval \<Rightarrow> pyval \<Rightarrow> pyval \<Rightarrow> pyval \<Rightarrow> py_error + pyval" where
  "expand_pointer instance_data_pointer expands badgeclass_json issuer_json =
     (case contains expands ''badgeclass'' of
        Inl e \<Rightarrow> Inl e
      | Inr False \<Rightarrow> Inr instance_data_pointer
      | Inr True \<Rightarrow>
          (case setitem instance_data_pointer ''badgeclass'' badgeclass_json of
             Inl e \<Rightarrow> Inl e
           | Inr pointer1 \<Rightarrow>
               (case contains expands ''issuer'' of
                  Inl e \<Rightarrow> Inl e
                | Inr False \<Rightarrow> Inr pointer1
                | Inr True \<Rightarrow>
                    (case setitem badgeclass_json ''issuer'' issuer_json of
                       Inl e \<Rightarrow> Inl e
                     | Inr badgeclass_json1 \<Rightarrow> setitem pointer1 ''badgeclass'' badgeclass_json1))))"

text \<open>
  The pointer aliases \<open>representation['result'][0]\<close>: what was stored through it is
  seen in the representation that is returned.
\<close>

definition write_back :: "pyval \<Rightarrow> pyval \<Rightarrow> pyval" where
  "write_back representation pointer =
     (case representation of
        PDict kvs \<Rightarrow>
          (case map_of kvs ''result'' of
             Some (PList (first # rest)) \<Rightarrow> PDict (AList.update ''result'' (PList (pointer # rest)) kvs)
           | _ \<Rightarrow> representation)
      | _ \<Rightarrow> representation)"

text \<open>
  \<^verbatim>\<open>
  def to_representation(self, instance):
      representation = super(BackpackAssertionSerializerV2, self).to_representation(instance)
      request_kwargs = self.context['kwargs']
      expands = request_kwargs.get('expands', [])
      if self.parent is not None:
          instance_data_pointer = representation
      else:
          instance_data_pointer = representation['result'][0]
      ...
      return representation
  \<close>
  The representation of the base class, \<open>self.parent\<close> and the two JSON documents
  of the instance's badge class and issuer are parameters.
\<close>

definition to_representation ::
  "pyval \<Rightarrow> 'p option \<Rightarrow> pydict \<Rightarrow> pyval \<Rightarrow> pyval \<Rightarrow> py_error + pyval" where
  "to_representation representation parent request_kwargs badgeclass_json issuer_json =
     (let expands = (case map_of request_kwargs ''expands'' of None \<Rightarrow> PList [] | Some v \<Rightarrow> v)
      in if parent \<noteq> None
         then expand_pointer representation expands badgeclass_json issuer_json
         else (case getitem_key representation ''result'' of
                 Inl e \<Rightarrow> Inl e
               | Inr result \<Rightarrow>
                   (case getitem_index result 0 of
                      Inl e \<Rightarrow> Inl e
                    | Inr instance_data_pointer \<Rightarrow>
                        (case expand_pointer instance_data_pointer expands badgeclass_json issuer_json of
                           Inl e \<Rightarrow> Inl e
                         | Inr pointer1 \<Rightarrow> Inr (write_back representation pointer1)))))"

section \<open>apps/issuer/api.py: revoking assertions\<close>

text \<open>
  The views call three operations that are not among the source files; they are
  parameters of the views:
  \<^item> \<open>get_object\<close> of the entity framework finds the assertion that the keyword
    arguments name, or raises \<open>Http404\<close> (\<open>None\<close>);
  \<^item> \<open>has_object_permissions\<close> says whether the request may act on the assertion;
  \<^item> \<open>revoke\<close> of the model layer (\<open>BadgeInstance.revoke\<close>) revokes the assertion
    and stores it, or raises.
  What \<open>revoke\<close> raises is Django's ValidationError or another exception; the source is
  Python 2, where every exception has a \<open>message\<close>.
\<close>

datatype raised = Raised_Django django_error | Raised_Other string


type_synonym get_object_fn = "world \<Rightarrow> pydict \<Rightarrow> badge_instance option"
type_synonym revoke_fn = "badge_instance \<Rightarrow> pyval \<Rightarrow> world \<Rightarrow> (raised + badge_instance) \<times> world"

record response =
  status :: nat
  data :: pyval

text \<open>\<open>d.get(k, None)\<close> on a dictionary.\<close>

definition dict_get :: "pydict \<Rightarrow> string \<Rightarrow> pyval" where
  "dict_get d k = (case map_of d k of None \<Rightarrow> PNone | Some v \<Rightarrow> v)"

text \<open>
  \<open>x.get(k, None)\<close> on the body of a request or on an item of it: a parsed body is
  any JSON value, and only an object has \<open>get\<close>.
\<close>

definition py_get :: "pyval \<Rightarrow> string \<Rightarrow> py_error + pyval" where
  "py_get x k = (case x of PDict d \<Rightarrow> Inr (dict_get d k) | _ \<Rightarrow> Inl AttributeError)"


text \<open>
  The status of the HTTP response that the REST framework makes of a view's outcome:
  a \<open>ValidationError\<close> is 400, \<open>Http404\<close> is 404, an exception nobody handles is
  500.
\<close>

fun http_status :: "exn + response \<Rightarrow> nat" where
  "http_status (Inr r) = status r"
| "http_status (Inl (ValidationError d)) = 400"
| "http_status (Inl Http404) = 404"
| "http_status (Inl (Uncaught_Django e)) = 500"
| "http_status (Inl (Uncaught_Python e)) = 500"
| "http_status (Inl (Uncaught_Other m)) = 500"

text \<open>
  \<^verbatim>\<open>
  def delete(self, request, **kwargs):                    # BadgeInstanceDetail
      assertion = self.get_object(request, **kwargs)
      if not self.has_object_permissions(request, assertion):
          return Response(status=HTTP_404_NOT_FOUND)
      revocation_reason = request.data.get('revocation_reason, None)
      if not revocation_reason:
          raise ValidationError({'revocation_reason: "This field is required"})
      try:
          assertion.revoke(revocation_reason)
      except DjangoValidationError as e:
          raise ValidationError(e.message)
      serializer = self.get_serializer_class()(assertion, context={'request': request})
      return Response(status=HTTP_200_OK, data=serializer.data)
  \<close>
  \<open>request.data.get\<close> is not guarded: on a body that is not an object its
  \<open>AttributeError\<close> leaves the view. \<open>serializer_data\<close> is the serializer's
  representation of an assertion.
\<close>

definition BadgeInstanceDetail_delete ::
  "get_object_fn \<Rightarrow> (badge_instance \<Rightarrow> bool) \<Rightarrow> revoke_fn \<Rightarrow> (badge_instance \<Rightarrow> pyval)
     \<Rightarrow> pydict \<Rightarrow> pyval \<Rightarrow> world \<Rightarrow> (exn + response) \<times> world" where
  "BadgeInstanceDetail_delete get_object has_object_permissions revoke serializer_data
       kwargs request_data w =
     (case get_object w kwargs of
        None \<Rightarrow> (Inl Http404, w)
      | Some assertion \<Rightarrow>
          if \<not> has_object_permissions assertion
          then (Inr \<lparr>status = 404, data = PNone\<rparr>, w)
          else
            (case py_get request_data ''revocation_reason'' of
               Inl e \<Rightarrow> (Inl (Uncaught_Python e), w)
             | Inr revocation_reason' \<Rightarrow>
                 if \<not> truthy revocation_reason'
                 then (Inl (ValidationError
                         (PDict [(''revocation_reason'', PStr ''This field is required'')])), w)
                 else
                   (case revoke assertion revocation_reason' w of
                      (Inl (Raised_Django e), w1) \<Rightarrow> (Inl (ValidationError (PStr (message e))), w1)
                    | (Inl (Raised_Other m), w1) \<Rightarrow> (Inl (Uncaught_Other m), w1)
                    | (Inr assertion1, w1) \<Rightarrow>
                        (Inr \<lparr>status = 200, data = serializer_data assertion1\<rparr>, w1))))"







text \<open>
  Modelled from the spec: \<open>BadgeInstance.revoke\<close> of issuer/models.py, which is not
  among the source files. The spec has revocation irreversible and in need of a reason:
  an assertion that is already revoked, or an empty reason, is an error; otherwise the
  assertion gets the revocation flag and the reason and is saved. It stands for the
  parameter \<open>revoke\<close> in the concrete instances.
\<close>

definition revoke_model :: revoke_fn where
  "revoke_model assertion reason w =
     (if revoked assertion
      then (Inl (Raised_Django (DjangoValidationError ''Assertion is already revoked''
                   [''Assertion is already revoked''])), w)
      else if \<not> truthy reason
      then (Inl (Raised_Django (DjangoValidationError ''revocation_reason is required''
                   [''revocation_reason is required''])), w)
      else (let assertion1 = assertion\<lparr>revoked := True, revocation_reason := reason\<rparr>
            in (Inr assertion1, save assertion1 w)))"

text \<open>
  Modelled from the spec: \<open>get_object\<close> of the entity framework (entity/api.py), which
  is not among the source files. The spec has it look an object up by its opaque entity
  id, and the views of api.py call it to trigger the object-permission check (the
  comments at its calls in \<open>IssuerBadgeClassList.post\<close> and
  \<open>IssuerBadgeInstanceList.post\<close>): an object that is not there, or that the request
  may not act on, is \<open>Http404\<close>. It stands for the parameter \<open>get_object\<close> in the
  concrete instances.
\<close>

definition framework_get_object :: "(badge_instance \<Rightarrow> bool) \<Rightarrow> get_object_fn" where
  "framework_get_object has_object_permissions w kwargs =
     (case map_of kwargs ''entity_id'' of
        Some (PStr s) \<Rightarrow>
          (case lookup_instance s w of
             Some a \<Rightarrow> if has_object_permissions a then Some a else None
           | None \<Rightarrow> None)
      | _ \<Rightarrow> None)"


definition sample_serializer_data :: "badge_instance \<Rightarrow> pyval" where
  "sample_serializer_data a =
     PDict [(''entityId'', PStr (entity_id a)), (''revoked'', PBool (revoked a)),
            (''revocationReason'', revocation_reason a)]"

text \<open>In the samples every assertion but D may be acted on.\<close>

definition sample_permission :: "badge_instance \<Rightarrow> bool" where
  "sample_permission a = (entity_id a \<noteq> ''D'')"

section \<open>apps/issuer/api.py: AssertionsChangedSince\<close>

text \<open>
  The filter of \<open>get_queryset\<close> follows relations with many rows: from the assertion's
  user to the access tokens of that user and on to the scopes of a token, and from the
  assertion's issuer to its staff rows. The ORM joins the tables (outer joins, so an
  assertion without a related row is kept with no row at that place), tests the
  expression on each joined row, and \<open>distinct()\<close> keeps each assertion once. The
  lookups of one \<open>filter\<close> call that go through the access tokens test the same token.
\<close>

type_synonym joined_row =
  "badge_instance \<times> access_token option \<times> string option \<times> issuer_staff option"

definition outer :: "'a list \<Rightarrow> 'a option list" where
  "outer xs = (if xs = [] then [None] else map Some xs)"

definition joined_rows :: "world \<Rightarrow> joined_row list" where
  "joined_rows w =
     [(a, t, s, m).
        a \<leftarrow> instances w,
        t \<leftarrow> outer (filter (\<lambda>tk. user a = Some (token_user tk)) (tokens w)),
        s \<leftarrow> (case t of None \<Rightarrow> [None] | Some tk \<Rightarrow> outer (scopes tk)),
        m \<leftarrow> outer (filter (\<lambda>st. staff_issuer st = issuer a) (staffs w))]"

text \<open>The lookups of the source as tests of a joined row; a missing row fails a test.\<close>

definition Q_accesstoken_application_user :: "string \<Rightarrow> joined_row \<Rightarrow> bool" where
  "Q_accesstoken_application_user u =
     (\<lambda>(a, t, s, m). case t of None \<Rightarrow> False | Some tk \<Rightarrow> application_user tk = Some u)"

definition Q_accesstokenscope_scope_in :: "string list \<Rightarrow> joined_row \<Rightarrow> bool" where
  "Q_accesstokenscope_scope_in scs =
     (\<lambda>(a, t, s, m). case s of None \<Rightarrow> False | Some sc \<Rightarrow> sc \<in> set scs)"

definition Q_issuerstaff_user :: "string \<Rightarrow> joined_row \<Rightarrow> bool" where
  "Q_issuerstaff_user u =
     (\<lambda>(a, t, s, m). case m of None \<Rightarrow> False | Some st \<Rightarrow> staff_user st = u)"

definition Q_updated_at_gt :: "int \<Rightarrow> joined_row \<Rightarrow> bool" where
  "Q_updated_at_gt since = (\<lambda>(a, t, s, m). since < updated_at a)"

definition Q_and :: "(joined_row \<Rightarrow> bool) \<Rightarrow> (joined_row \<Rightarrow> bool) \<Rightarrow> joined_row \<Rightarrow> bool" where
  "Q_and p q = (\<lambda>r. p r \<and> q r)"

definition Q_or :: "(joined_row \<Rightarrow> bool) \<Rightarrow> (joined_row \<Rightarrow> bool) \<Rightarrow> joined_row \<Rightarrow> bool" where
  "Q_or p q = (\<lambda>r. p r \<or> q r)"

text \<open>
  \<^verbatim>\<open>
  def get_queryset(self, request, since=None):
      user = request.user
      expr = Q(user__oauth2_provider_accesstoken__application__user=user)
      expr &= Q(user__oauth2_provider_accesstoken__accesstokenscope__scope__in=["r:backpack", "rw:backpack"])
      expr |= Q(issuer__issuerstaff__user=user)
      if since is not None:
          expr &= Q(updated_at__gt=since)
      qs = BadgeInstance.objects.filter(expr).distinct()
      return qs
  \<close>
\<close>

definition AssertionsChangedSince_get_queryset ::
  "string \<Rightarrow> int option \<Rightarrow> world \<Rightarrow> badge_instance list" where
  "AssertionsChangedSince_get_queryset u since w =
     (let expr = Q_accesstoken_application_user u;
          expr = Q_and expr (Q_accesstokenscope_scope_in [''r:backpack'', ''rw:backpack'']);
          expr = Q_or expr (Q_issuerstaff_user u);
          expr = (case since of None \<Rightarrow> expr | Some t \<Rightarrow> Q_and expr (Q_updated_at_gt t))
      in remdups (map fst (filter expr (joined_rows w))))"

text \<open>
  Following the specification: an assertion is visible to a user as backpack owner through a
  token of the assertion's user that belongs to an application of the requesting user
  and has the scope r:backpack or rw:backpack, or as staff of the assertion's issuer.
\<close>

definition visible_to :: "world \<Rightarrow> string \<Rightarrow> badge_instance \<Rightarrow> bool" where
  "visible_to w u a =
     (list_ex (\<lambda>tk. user a = Some (token_user tk) \<and> application_user tk = Some u
                 \<and> list_ex (\<lambda>sc. sc = ''r:backpack'' \<or> sc = ''rw:backpack'') (scopes tk))
        (tokens w)
      \<or> list_ex (\<lambda>st. staff_issuer st = issuer a \<and> staff_user st = u) (staffs w))"

text \<open>\<open>request.GET.get(k, None)\<close>\<close>

definition get_opt :: "query_dict \<Rightarrow> string \<Rightarrow> string option" where
  "get_opt qp k =
     (case map_of qp k of
        None \<Rightarrow> None
      | Some vs \<Rightarrow> if vs = [] then None else Some (last vs))"

text \<open>\<open>timezone.now()\<close> reads the clock.\<close>

definition timezone_now :: "world \<Rightarrow> int \<times> world" where
  "timezone_now w = (clock w, log_effect (Clock_read (clock w)) w)"

text \<open>
  The queryset as the view hands it on, not yet executed. Executing it sends the time
  of the test on \<open>since\<close> to the database; \<open>representable\<close> says of a time whether
  the database adapter can convert it, and the conversion of any other time raises
  \<open>OverflowError\<close>.
\<close>

definition lazy_queryset ::
  "(int \<Rightarrow> bool) \<Rightarrow> string \<Rightarrow> int option \<Rightarrow> world \<Rightarrow> py_error + badge_instance list" where
  "lazy_queryset representable u since w =
     (case since of
        None \<Rightarrow> Inr (AssertionsChangedSince_get_queryset u None w)
      | Some t \<Rightarrow> if representable t then Inr (AssertionsChangedSince_get_queryset u (Some t) w)
                 else Inl OverflowError)"

text \<open>
  Modelled from the spec: \<open>CursorPaginatedListSerializer.__init__\<close> of
  mainsite/serializers.py, which is not among the source files. By the spec and by the
  comment at its call it is where the query is executed: it evaluates the queryset in
  the world it is called in.
\<close>

definition CursorPaginatedListSerializer_init ::
  "(world \<Rightarrow> py_error + badge_instance list) \<Rightarrow> world
     \<Rightarrow> (py_error + badge_instance list) \<times> world" where
  "CursorPaginatedListSerializer_init queryset w = (queryset w, log_effect Query_run w)"

text \<open>
  \<^verbatim>\<open>
  class PaginatedAssertionsSinceSerializer(CursorPaginatedListSerializer):
      def __init__(self, *args, **kwargs):
          self.timestamp = timezone.now()  # take timestamp now before SQL query is run in super.__init__
          super(PaginatedAssertionsSinceSerializer, self).__init__(*args, **kwargs)

      def to_representation(self, data):
          representation = super(PaginatedAssertionsSinceSerializer, self).to_representation(data)
          representation['timestamp'] = self.timestamp.isoformat()
          return representation
  \<close>
\<close>

record paginated_serializer =
  timestamp :: int
  page :: "badge_instance list"

definition PaginatedAssertionsSinceSerializer_init ::
  "(world \<Rightarrow> py_error + badge_instance list) \<Rightarrow> world
     \<Rightarrow> (py_error + paginated_serializer) \<times> world" where
  "PaginatedAssertionsSinceSerializer_init queryset w =
     (case timezone_now w of
        (ts, w1) \<Rightarrow>
          (case CursorPaginatedListSerializer_init queryset w1 of
             (Inl e, w2) \<Rightarrow> (Inl e, w2)
           | (Inr rows, w2) \<Rightarrow> (Inr \<lparr>timestamp = ts, page = rows\<rparr>, w2)))"

definition PaginatedAssertionsSinceSerializer_to_representation ::
  "(badge_instance list \<Rightarrow> pydict) \<Rightarrow> (int \<Rightarrow> string) \<Rightarrow> paginated_serializer \<Rightarrow> pyval" where
  "PaginatedAssertionsSinceSerializer_to_representation super_to_representation isoformat ser =
     (let representation = super_to_representation (page ser);
          representation = AList.update ''timestamp'' (PStr (isoformat (timestamp ser))) representation
      in PDict representation)"

text \<open>
  What \<open>dateutil.parser.isoparse\<close> does with a string: it returns a time, raises
  \<open>ValueError\<close>, or raises another exception (\<open>OverflowError\<close> for a string such as
  \<open>9999-12-31T24:00\<close>, whose time is past the last one a datetime holds).
\<close>

datatype parse_result = Parsed int | Raises_ValueError | Raises py_error

text \<open>
  \<^verbatim>\<open>
  def get(self, request, **kwargs):
      since = request.GET.get('since', None)
      if since is not None:
          try:
              since = dateutil.parser.isoparse(since)
          except ValueError as e:
              err = V2ErrorSerializer(
                  data={}, field_errors={'since': ["must be ISO-8601 format with time zone"]},
                  validation_errors=[])
              err._success = False
              err._description = "bad request"
              err.is_valid(raise_exception=False)
              return Response(err.data, status=HTTP_400_BAD_REQUEST)
      queryset = self.get_queryset(request, since=since)
      context = self.get_context_data(**kwargs)
      serializer = PaginatedAssertionsSinceSerializer(queryset=queryset, request=request, context=context)
      serializer.is_valid()
      return Response(serializer.data)
  \<close>
  The handler is for \<open>ValueError\<close> only: another exception of \<open>isoparse\<close> leaves
  the view, as does an exception of the query. Parameters: \<open>isoparse\<close>,
  \<open>representable\<close>, \<open>isoformat\<close>, the data of the error serializer (from the field
  errors, the validation errors, the success flag and the description) and the
  representation of the base list serializer.
\<close>

definition AssertionsChangedSince_get ::
  "(string \<Rightarrow> parse_result) \<Rightarrow> (int \<Rightarrow> bool) \<Rightarrow> (int \<Rightarrow> string)
     \<Rightarrow> (pydict \<Rightarrow> pyval list \<Rightarrow> bool \<Rightarrow> string \<Rightarrow> pyval)
     \<Rightarrow> (badge_instance list \<Rightarrow> pydict) \<Rightarrow> query_dict \<Rightarrow> string \<Rightarrow> world
     \<Rightarrow> (exn + response) \<times> world" where
  "AssertionsChangedSince_get isoparse representable isoformat V2ErrorSerializer_data
       super_to_representation GET u w =
     (let parsed =
            (case get_opt GET ''since'' of
               None \<Rightarrow> Inr None
             | Some s \<Rightarrow>
                 (case isoparse s of
                    Parsed t \<Rightarrow> Inr (Some t)
                  | Raises_ValueError \<Rightarrow>
                      Inl (Inr \<lparr>status = 400,
                                data = V2ErrorSerializer_data
                                  [(''since'', PList [PStr ''must be ISO-8601 format with time zone''])]
                                  [] False ''bad request''\<rparr>)
                  | Raises e \<Rightarrow> Inl (Inl (Uncaught_Python e))))
      in case parsed of
           Inl outcome \<Rightarrow> (outcome, w)
         | Inr since \<Rightarrow>
             (case PaginatedAssertionsSinceSerializer_init (lazy_queryset representable u since) w of
                (Inl e, w1) \<Rightarrow> (Inl (Uncaught_Python e), w1)
              | (Inr serializer, w1) \<Rightarrow>
                  (Inr \<lparr>status = 200,
                        data = PaginatedAssertionsSinceSerializer_to_representation
                                 super_to_representation isoformat serializer\<rparr>, w1)))"

text \<open>
  The expression of \<open>get_queryset\<close> before the test on \<open>since\<close>, and sample data
  for the change feed.
\<close>

definition feed_expr :: "string \<Rightarrow> joined_row \<Rightarrow> bool" where
  "feed_expr u = Q_or (Q_and (Q_accesstoken_application_user u)
                        (Q_accesstokenscope_scope_in [''r:backpack'', ''rw:backpack'']))
                   (Q_issuerstaff_user u)"

definition sample_feed_world :: world where
  "sample_feed_world =
     \<lparr>instances =
        [(sample_assertion ''A'')\<lparr>updated_at := 10\<rparr>,
         (sample_assertion ''B'')\<lparr>updated_at := 30\<rparr>,
         (sample_assertion ''C'')\<lparr>user := Some ''bob'', issuer := ''issuer-2'', updated_at := 40\<rparr>,
         (sample_assertion ''D'')\<lparr>user := None, issuer := ''issuer-3'', updated_at := 50\<rparr>],
      tokens =
        [\<lparr>token_user = ''alice'', application_user = Some ''app'',
          scopes = [''r:profile'', ''rw:backpack'']\<rparr>,
         \<lparr>token_user = ''bob'', application_user = Some ''app'', scopes = [''r:profile'']\<rparr>],
      staffs = [\<lparr>staff_issuer = ''issuer-3'', staff_user = ''app''\<rparr>],
      clock = 100, effects = []\<rparr>"

definition sample_isoparse :: "string \<Rightarrow> parse_result" where
  "sample_isoparse s =
     (if s = ''1970-01-01T00:00:20+00:00'' then Parsed 20
      else if s = ''9999-12-31T24:00'' then Raises OverflowError
      else Raises_ValueError)"

definition sample_representable :: "int \<Rightarrow> bool" where
  "sample_representable t = (0 \<le> t)"

definition sample_isoformat :: "int \<Rightarrow> string" where
  "sample_isoformat t = (if t = 100 then ''1970-01-01T00:01:40+00:00'' else ''other'')"

definition sample_error_data :: "pydict \<Rightarrow> pyval list \<Rightarrow> bool \<Rightarrow> string \<Rightarrow> pyval" where
  "sample_error_data field_errors validation_errors success description =
     PDict [(''status'', PDict [(''success'', PBool success), (''description'', PStr description)]),
            (''fieldErrors'', PDict field_errors),
            (''validationErrors'', PList validation_errors)]"

definition sample_list_representation :: "badge_instance list \<Rightarrow> pydict" where
  "sample_list_representation rows = [(''result'', PList (map (\<lambda>a. PStr (entity_id a)) rows))]"

section \<open>Properties of validate\<close>

lemma is_set_Cons:
  "is_set ((k, v) # attrs) f = (if f = k then truthy v else is_set attrs f)"
  by (simp add: is_set_def)

lemma is_set_key: "is_set attrs f \<Longrightarrow> f \<in> fst ` set attrs"
proof -
  assume "is_set attrs f"
  then obtain v where "map_of attrs f = Some v"
    by (auto simp: is_set_def split: option.splits)
  then have "(f, v) \<in> set attrs" by (rule map_of_SomeD)
  then show ?thesis by force
qed

lemma finite_is_set: "finite {f. is_set attrs f}"
proof (rule finite_subset)
  show "{f. is_set attrs f} \<subseteq> fst ` set attrs" using is_set_key by blast
  show "finite (fst ` set attrs)" by simp
qed

lemma count_truthy_card:
  "distinct (map fst attrs) \<Longrightarrow>
   sum_list (map (\<lambda>v. if truthy v then 1 else (0::int)) (values_of attrs))
     = int (card {f. is_set attrs f})"
proof (induction attrs)
  case Nil
  then show ?case by (simp add: values_of_def is_set_def)
next
  case (Cons p attrs)
  obtain k v where p: "p = (k, v)" by (cases p)
  from Cons.prems p have fresh: "k \<notin> fst ` set attrs" and d: "distinct (map fst attrs)"
    by auto
  from fresh have notset: "\<not> is_set attrs k" using is_set_key by blast
  have split: "{f. is_set (p # attrs) f} =
      (if truthy v then insert k {f. is_set attrs f} else {f. is_set attrs f})"
    using notset by (auto simp: p is_set_Cons)
  have "card {f. is_set (p # attrs) f} =
      (if truthy v then Suc (card {f. is_set attrs f}) else card {f. is_set attrs f})"
    using notset finite_is_set [of attrs] by (simp add: split)
  with Cons.IH [OF d] show ?case
    by (simp add: values_of_def p)
qed

lemma card_is_set_fields:
  assumes "set (map fst attrs) \<subseteq> set import_fields"
  shows "card {f. is_set attrs f} = length (filter (is_set attrs) import_fields)"
proof -
  have "distinct import_fields" by (simp add: import_fields_def)
  then have "length (filter (is_set attrs) import_fields)
      = card ({f. is_set attrs f} \<inter> set import_fields)"
    by (rule distinct_length_filter)
  moreover have "{f. is_set attrs f} \<inter> set import_fields = {f. is_set attrs f}"
    using assms is_set_key [of attrs] by auto
  ultimately show ?thesis by simp
qed

text \<open>
  C2. For every import request (a dictionary over the fields url, image and assertion),
  validate raises the validation error when none of the three fields is set and when
  two or more of them are set, and returns the input exactly when one of them is set.
  A field counts as set when it is present with a truthy value.
\<close>

theorem validate_exactly_one:
  assumes "distinct (map fst attrs)"
    and "set (map fst attrs) \<subseteq> set import_fields"
  shows "validate attrs =
     (if length (filter (is_set attrs) import_fields) = 1 then Inr attrs
      else Inl (ValidationError (PStr only_one_message)))"
proof -
  have "sum_list (map (\<lambda>v. if truthy v then 1 else (0::int)) (values_of attrs))
      = int (length (filter (is_set attrs) import_fields))"
    using count_truthy_card [OF assms(1)] card_is_set_fields [OF assms(2)] by simp
  then show ?thesis by (simp add: validate_def)
qed

theorem validate_exactly_one_witness:
  "validate [(''url'', PStr ''http://a.example/1'')] = Inr [(''url'', PStr ''http://a.example/1'')]
   \<and> validate [] = Inl (ValidationError (PStr only_one_message))
   \<and> validate [(''url'', PStr ''http://a.example/1''), (''image'', PFile ''b.png'')]
       = Inl (ValidationError (PStr only_one_message))"
proof -
  have a: "validate [(''url'', PStr ''http://a.example/1'')] = Inr [(''url'', PStr ''http://a.example/1'')]"
    using validate_exactly_one [of "[(''url'', PStr ''http://a.example/1'')]"]
    by (simp add: import_fields_def is_set_def)
  have b: "validate [] = Inl (ValidationError (PStr only_one_message))"
    using validate_exactly_one [of "[]"]
    by (simp add: import_fields_def is_set_def)
  have c: "validate [(''url'', PStr ''http://a.example/1''), (''image'', PFile ''b.png'')]
       = Inl (ValidationError (PStr only_one_message))"
    using validate_exactly_one [of "[(''url'', PStr ''http://a.example/1''), (''image'', PFile ''b.png'')]"]
    by (simp add: import_fields_def is_set_def)
  from a b c show ?thesis by simp
qed

text \<open>
  C10. validate counts truthiness, not presence: a field that is provided with a falsy
  value is treated as absent. An input with one truthy field and one falsy field
  passes, and an input whose only provided field is falsy fails.
\<close>

theorem validate_counts_truthiness:
  assumes "truthy v" and "\<not> truthy w"
  shows "validate [(f, v), (g, w)] = Inr [(f, v), (g, w)]
       \<and> validate [(g, w), (f, v)] = Inr [(g, w), (f, v)]
       \<and> validate [(g, w)] = Inl (ValidationError (PStr only_one_message))"
  using assms by (simp add: validate_def values_of_def)

theorem validate_counts_truthiness_witness:
  "validate [(''url'', PStr ''http://a.example/1''), (''assertion'', PDict [])]
     = Inr [(''url'', PStr ''http://a.example/1''), (''assertion'', PDict [])]
   \<and> validate [(''assertion'', PDict [])] = Inl (ValidationError (PStr only_one_message))
   \<and> validate [(''url'', PStr '''')] = Inl (ValidationError (PStr only_one_message))"
proof -
  have t: "truthy (PStr ''http://a.example/1'')" by simp
  have e: "\<not> truthy (PDict [])" by simp
  have s: "\<not> truthy (PStr '''')" by simp
  from validate_counts_truthiness [OF t e, of "''url''" "''assertion''"]
    validate_counts_truthiness [OF t s, of "''url''" "''url''"]
  show ?thesis by simp
qed

section \<open>Properties of the acceptance update\<close>

lemma find_save_row:
  "find (\<lambda>r. entity_id r = entity_id i) (save_row i rows) = Some i"
  by (induction rows) auto

lemma lookup_instance_save:
  "lookup_instance (entity_id i) (save i w) = Some i"
  by (simp add: lookup_instance_def save_def find_save_row)

lemma save_row_keeps_ids:
  "entity_id i \<in> entity_id ` set rows \<Longrightarrow>
   map entity_id (save_row i rows) = map entity_id rows"
  by (induction rows) auto









section \<open>Properties of the import\<close>

text \<open>
  C3. When the badge-check helper returns an instance that it did not create (a row of
  the table), create sets its acceptance to "Accepted", saves it and raises the
  validation error DUPLICATE\_BADGE instead of returning; the table has the same rows
  as before the save, none added. When the helper raises Django's ValidationError,
  create raises the REST framework's ValidationError with the same messages.
\<close>

theorem create_duplicate_and_translation:
  "(helper (helper_kwargs vd) w = (Inr (inst, False), w1)
      \<and> entity_id inst \<in> entity_id ` set (instances w1)
    \<longrightarrow> create helper vd w =
          (Inl (ValidationError (PList [PDict [(''name'', PStr ''DUPLICATE_BADGE''),
             (''description'', PStr ''You already have this badge in your backpack'')]])),
           save (inst\<lparr>acceptance := ''Accepted''\<rparr>) w1)
        \<and> lookup_instance (entity_id inst) (save (inst\<lparr>acceptance := ''Accepted''\<rparr>) w1)
            = Some (inst\<lparr>acceptance := ''Accepted''\<rparr>)
        \<and> map entity_id (instances (save (inst\<lparr>acceptance := ''Accepted''\<rparr>) w1))
            = map entity_id (instances w1))
   \<and> (helper (helper_kwargs vd) w = (Inl e, w1)
    \<longrightarrow> create helper vd w = (Inl (ValidationError (PList (map PStr (messages e)))), w1))"
proof -
  let ?i = "inst\<lparr>acceptance := ''Accepted''\<rparr>"
  have dup: "create helper vd w = (Inl (ValidationError duplicate_badge_detail), save ?i w1)"
    if "helper (helper_kwargs vd) w = (Inr (inst, False), w1)"
    using that by (simp add: create_def Let_def ACCEPTANCE_ACCEPTED_def)
  have stored: "lookup_instance (entity_id inst) (save ?i w1) = Some ?i"
    using lookup_instance_save [of ?i w1] by simp
  have ids: "map entity_id (instances (save ?i w1)) = map entity_id (instances w1)"
    if "entity_id inst \<in> entity_id ` set (instances w1)"
    using that save_row_keeps_ids [of ?i "instances w1"] by (simp add: save_def)
  have err: "create helper vd w = (Inl (ValidationError (PList (map PStr (messages e)))), w1)"
    if "helper (helper_kwargs vd) w = (Inl e, w1)"
    using that by (simp add: create_def)
  from dup stored ids err show ?thesis
    by (simp add: duplicate_badge_detail_def)
qed

theorem create_duplicate_and_translation_witness:
  "create (\<lambda>kw w. (Inr (sample_assertion ''A'', False), w)) [(''url'', PStr ''http://a.example/1'')] sample_world
     = (Inl (ValidationError (PList [PDict [(''name'', PStr ''DUPLICATE_BADGE''),
             (''description'', PStr ''You already have this badge in your backpack'')]])),
        sample_world\<lparr>instances := [(sample_assertion ''A'')\<lparr>acceptance := ''Accepted''\<rparr>, sample_assertion ''B'']\<rparr>)
   \<and> create (\<lambda>kw w. (Inl (DjangoValidationError ''not found'' [''not found'', ''bad url'']), w))
        [(''url'', PStr ''http://a.example/1'')] sample_world
     = (Inl (ValidationError (PList [PStr ''not found'', PStr ''bad url''])), sample_world)"
proof -
  have a: "create (\<lambda>kw w. (Inr (sample_assertion ''A'', False), w)) [(''url'', PStr ''http://a.example/1'')] sample_world
     = (Inl (ValidationError (PList [PDict [(''name'', PStr ''DUPLICATE_BADGE''),
             (''description'', PStr ''You already have this badge in your backpack'')]])),
        sample_world\<lparr>instances := [(sample_assertion ''A'')\<lparr>acceptance := ''Accepted''\<rparr>, sample_assertion ''B'']\<rparr>)"
    using create_duplicate_and_translation
      [of "\<lambda>kw w. (Inr (sample_assertion ''A'', False), w)" "[(''url'', PStr ''http://a.example/1'')]"
          sample_world "sample_assertion ''A''" sample_world]
    by (simp add: sample_world_def sample_assertion_def save_def)
  have b: "create (\<lambda>kw w. (Inl (DjangoValidationError ''not found'' [''not found'', ''bad url'']), w))
        [(''url'', PStr ''http://a.example/1'')] sample_world
     = (Inl (ValidationError (PList [PStr ''not found'', PStr ''bad url''])), sample_world)"
    using create_duplicate_and_translation
      [of "\<lambda>kw w. (Inl (DjangoValidationError ''not found'' [''not found'', ''bad url'']), w)"
          "[(''url'', PStr ''http://a.example/1'')]" sample_world _ sample_world
          "DjangoValidationError ''not found'' [''not found'', ''bad url'']"]
    by simp
  from a b show ?thesis by simp
qed

section \<open>Properties of the assertion lists\<close>

lemma lower_examples:
  "lower ''TRUE'' = ''true''" "lower ''True'' = ''true''" "lower ''true'' = ''true''"
  "lower ''1'' = ''1''" "lower [] = []"
  by code_simp+

text \<open>
  C4. The issuer's assertion list holds the issuer's assertions except, by default, the
  revoked ones and the ones whose expiry date is set and in the past. The flag
  include\_expired (value "1" or "true" in any case) takes away the expiry filter only,
  the flag include\_revoked the revocation filter only, each whatever the other is; a
  list of recipient parameters keeps only the assertions of those recipients.
\<close>

theorem issuer_list_filters:
  assumes "get_object w kwargs = Some iss"
  shows "IssuerBadgeInstanceList_get_queryset get_object kwargs qp w =
      Inr (filter (\<lambda>a. issuer a = iss
             \<and> (getlist qp ''recipient'' = []
                 \<or> recipient_identifier a \<in> set (getlist qp ''recipient''))
             \<and> (query_flag qp ''include_expired'' \<or> \<not> is_expired (clock w) a)
             \<and> (query_flag qp ''include_revoked'' \<or> \<not> revoked a)) (instances w))
    \<and> (map_of qp ''include_expired'' = None \<and> map_of qp ''include_revoked'' = None
        \<longrightarrow> IssuerBadgeInstanceList_get_queryset get_object kwargs qp w =
            Inr (filter (\<lambda>a. issuer a = iss
               \<and> (getlist qp ''recipient'' = []
                   \<or> recipient_identifier a \<in> set (getlist qp ''recipient''))
               \<and> \<not> is_expired (clock w) a \<and> \<not> revoked a) (instances w)))"
proof -
  have unexpired: "((case expires_at a of Some t \<Rightarrow> clock w \<le> t | None \<Rightarrow> False)
        \<or> expires_at a = None) = (\<not> is_expired (clock w) a)" for a
    by (cases "expires_at a") (auto simp: is_expired_def)
  have main: "IssuerBadgeInstanceList_get_queryset get_object kwargs qp w =
      Inr (filter (\<lambda>a. issuer a = iss
             \<and> (getlist qp ''recipient'' = []
                 \<or> recipient_identifier a \<in> set (getlist qp ''recipient''))
             \<and> (query_flag qp ''include_expired'' \<or> \<not> is_expired (clock w) a)
             \<and> (query_flag qp ''include_revoked'' \<or> \<not> revoked a)) (instances w))"
    using assms
    by (auto simp: IssuerBadgeInstanceList_get_queryset_def Let_def query_flag_def unexpired
        intro!: filter_cong)
  have off: "\<not> query_flag qp k" if "map_of qp k = None" for k
    using that by (simp add: query_flag_def get_param_def lower_def)
  from main off show ?thesis by simp
qed

theorem issuer_list_filters_witness:
  "IssuerBadgeInstanceList_get_queryset sample_get_object [(''entity_id'', PStr ''issuer-1'')]
      [] (sample_world\<lparr>instances := sample_rows\<rparr>)
     = Inr [sample_assertion ''A'',
            (sample_assertion ''D'')\<lparr>expires_at := Some 150, recipient_identifier := ''bob@example.org''\<rparr>]
   \<and> IssuerBadgeInstanceList_get_queryset sample_get_object [(''entity_id'', PStr ''issuer-1'')]
      [(''include_expired'', [''1''])] (sample_world\<lparr>instances := sample_rows\<rparr>)
     = Inr [sample_assertion ''A'',
            (sample_assertion ''C'')\<lparr>expires_at := Some 50\<rparr>,
            (sample_assertion ''D'')\<lparr>expires_at := Some 150, recipient_identifier := ''bob@example.org''\<rparr>]
   \<and> IssuerBadgeInstanceList_get_queryset sample_get_object [(''entity_id'', PStr ''issuer-1'')]
      [(''include_revoked'', [''TRUE'']), (''recipient'', [''alice@example.org''])]
      (sample_world\<lparr>instances := sample_rows\<rparr>)
     = Inr [sample_assertion ''A'',
            (sample_assertion ''B'')\<lparr>revoked := True, revocation_reason := PStr ''mistake''\<rparr>]"
proof -
  have g: "sample_get_object (sample_world\<lparr>instances := sample_rows\<rparr>)
      [(''entity_id'', PStr ''issuer-1'')] = Some ''issuer-1''"
    by (simp add: sample_get_object_def)
  have a: "IssuerBadgeInstanceList_get_queryset sample_get_object [(''entity_id'', PStr ''issuer-1'')]
      [] (sample_world\<lparr>instances := sample_rows\<rparr>)
     = Inr [sample_assertion ''A'',
            (sample_assertion ''D'')\<lparr>expires_at := Some 150, recipient_identifier := ''bob@example.org''\<rparr>]"
    using g issuer_list_filters [where get_object = sample_get_object
        and w = "sample_world\<lparr>instances := sample_rows\<rparr>"
        and kwargs = "[(''entity_id'', PStr ''issuer-1'')]" and iss = "''issuer-1''"
        and qp = "[]"]
    by (simp add: sample_world_def sample_rows_def sample_assertion_def getlist_def
        is_expired_def query_flag_def get_param_def lower_examples)
  have b: "IssuerBadgeInstanceList_get_queryset sample_get_object [(''entity_id'', PStr ''issuer-1'')]
      [(''include_expired'', [''1''])] (sample_world\<lparr>instances := sample_rows\<rparr>)
     = Inr [sample_assertion ''A'',
            (sample_assertion ''C'')\<lparr>expires_at := Some 50\<rparr>,
            (sample_assertion ''D'')\<lparr>expires_at := Some 150, recipient_identifier := ''bob@example.org''\<rparr>]"
    using g issuer_list_filters [where get_object = sample_get_object
        and w = "sample_world\<lparr>instances := sample_rows\<rparr>"
        and kwargs = "[(''entity_id'', PStr ''issuer-1'')]" and iss = "''issuer-1''"
        and qp = "[(''include_expired'', [''1''])]"]
    by (simp add: sample_world_def sample_rows_def sample_assertion_def getlist_def
        is_expired_def query_flag_def get_param_def lower_examples)
  have c: "IssuerBadgeInstanceList_get_queryset sample_get_object [(''entity_id'', PStr ''issuer-1'')]
      [(''include_revoked'', [''TRUE'']), (''recipient'', [''alice@example.org''])]
      (sample_world\<lparr>instances := sample_rows\<rparr>)
     = Inr [sample_assertion ''A'',
            (sample_assertion ''B'')\<lparr>revoked := True, revocation_reason := PStr ''mistake''\<rparr>]"
    using g issuer_list_filters [where get_object = sample_get_object
        and w = "sample_world\<lparr>instances := sample_rows\<rparr>"
        and kwargs = "[(''entity_id'', PStr ''issuer-1'')]" and iss = "''issuer-1''"
        and qp = "[(''include_revoked'', [''TRUE'']), (''recipient'', [''alice@example.org''])]"]
    by (simp add: sample_world_def sample_rows_def sample_assertion_def getlist_def
        is_expired_def query_flag_def get_param_def lower_examples)
  from a b c show ?thesis by simp
qed

text \<open>
  C9. The assertion list of a badge class never holds a revoked assertion, whatever the
  query parameters are: it is the badge class's unrevoked assertions, restricted to the
  recipients asked for.
\<close>

theorem badgeclass_list_excludes_revoked:
  "(get_object w kwargs = Some bc
      \<longrightarrow> BadgeInstanceList_get_queryset get_object kwargs qp w =
          Inr (filter (\<lambda>a. badgeclass a = bc \<and> \<not> revoked a
                 \<and> (getlist qp ''recipient'' = []
                     \<or> recipient_identifier a \<in> set (getlist qp ''recipient'')))
               (instances w)))
   \<and> (BadgeInstanceList_get_queryset get_object kwargs qp w = Inr rows
      \<longrightarrow> (\<forall>a \<in> set rows. \<not> revoked a))"
  by (auto simp: BadgeInstanceList_get_queryset_def Let_def
      split: option.splits if_splits intro!: filter_cong)

theorem badgeclass_list_excludes_revoked_witness:
  "BadgeInstanceList_get_queryset sample_get_object [(''entity_id'', PStr ''badge-1'')]
      [(''include_revoked'', [''true''])] (sample_world\<lparr>instances := sample_rows\<rparr>)
     = Inr [sample_assertion ''A'',
            (sample_assertion ''C'')\<lparr>expires_at := Some 50\<rparr>,
            (sample_assertion ''D'')\<lparr>expires_at := Some 150, recipient_identifier := ''bob@example.org''\<rparr>]
   \<and> list_all (\<lambda>a. \<not> revoked a)
       [sample_assertion ''A'',
        (sample_assertion ''C'')\<lparr>expires_at := Some 50\<rparr>,
        (sample_assertion ''D'')\<lparr>expires_at := Some 150, recipient_identifier := ''bob@example.org''\<rparr>]"
proof -
  have g: "sample_get_object (sample_world\<lparr>instances := sample_rows\<rparr>)
      [(''entity_id'', PStr ''badge-1'')] = Some ''badge-1''"
    by (simp add: sample_get_object_def)
  have a: "BadgeInstanceList_get_queryset sample_get_object [(''entity_id'', PStr ''badge-1'')]
      [(''include_revoked'', [''true''])] (sample_world\<lparr>instances := sample_rows\<rparr>)
     = Inr [sample_assertion ''A'',
            (sample_assertion ''C'')\<lparr>expires_at := Some 50\<rparr>,
            (sample_assertion ''D'')\<lparr>expires_at := Some 150, recipient_identifier := ''bob@example.org''\<rparr>]"
    using g badgeclass_list_excludes_revoked
      [of sample_get_object "sample_world\<lparr>instances := sample_rows\<rparr>"
          "[(''entity_id'', PStr ''badge-1'')]" "''badge-1''" "[(''include_revoked'', [''true''])]"]
    by (simp add: sample_world_def sample_rows_def sample_assertion_def getlist_def)
  with badgeclass_list_excludes_revoked
      [of sample_get_object "sample_world\<lparr>instances := sample_rows\<rparr>"
          "[(''entity_id'', PStr ''badge-1'')]" "''badge-1''" "[(''include_revoked'', [''true''])]"]
  show ?thesis by (simp add: list_all_iff)
qed

section \<open>Properties of the assertion representation\<close>

lemma expand_pointer_list:
  "expand_pointer (PDict d) (PList xs) bc iss =
     (if PStr ''badgeclass'' \<in> set xs
      then (if PStr ''issuer'' \<in> set xs
            then (case bc of
                    PDict b \<Rightarrow> Inr (PDict (AList.update ''badgeclass'' (PDict (AList.update ''issuer'' iss b)) d))
                  | _ \<Rightarrow> Inl TypeError)
            else Inr (PDict (AList.update ''badgeclass'' bc d)))
      else Inr (PDict d))"
  by (cases bc) (simp_all add: expand_pointer_def contains_def setitem_def)

lemma expand_pointer_without_badgeclass:
  "PStr ''badgeclass'' \<notin> set xs \<Longrightarrow> expand_pointer p (PList xs) bc iss = Inr p"
  by (simp add: expand_pointer_def contains_def)

text \<open>
  C8. With the request's expands a list: when it holds 'badgeclass', the badge class
  JSON is stored under the key badgeclass of the representation, in the object itself
  when the serializer is nested under a parent and in result[0] when it stands alone;
  when it holds 'issuer' as well, the issuer JSON is stored under the key issuer inside
  that badge class JSON; when it holds 'issuer' and not 'badgeclass', the representation
  is returned as the base class made it.
\<close>

theorem to_representation_expands:
  fixes parent :: "'p option"
  assumes "(case map_of kwargs ''expands'' of None \<Rightarrow> PList [] | Some v \<Rightarrow> v) = PList xs"
  shows
   "(parent \<noteq> None \<and> PStr ''badgeclass'' \<in> set xs \<and> PStr ''issuer'' \<notin> set xs
       \<longrightarrow> to_representation (PDict kvs) parent kwargs bc iss
           = Inr (PDict (AList.update ''badgeclass'' bc kvs)))
  \<and> (parent \<noteq> None \<and> PStr ''badgeclass'' \<in> set xs \<and> PStr ''issuer'' \<in> set xs
       \<longrightarrow> to_representation (PDict kvs) parent kwargs (PDict b) iss
           = Inr (PDict (AList.update ''badgeclass'' (PDict (AList.update ''issuer'' iss b)) kvs)))
  \<and> (parent \<noteq> None \<and> PStr ''badgeclass'' \<notin> set xs
       \<longrightarrow> to_representation (PDict kvs) parent kwargs bc iss = Inr (PDict kvs))
  \<and> (parent = None \<and> map_of kvs ''result'' = Some (PList (PDict d # rest))
        \<and> PStr ''badgeclass'' \<in> set xs \<and> PStr ''issuer'' \<notin> set xs
       \<longrightarrow> to_representation (PDict kvs) parent kwargs bc iss
           = Inr (PDict (AList.update ''result''
                   (PList (PDict (AList.update ''badgeclass'' bc d) # rest)) kvs)))
  \<and> (parent = None \<and> map_of kvs ''result'' = Some (PList (PDict d # rest))
        \<and> PStr ''badgeclass'' \<in> set xs \<and> PStr ''issuer'' \<in> set xs
       \<longrightarrow> to_representation (PDict kvs) parent kwargs (PDict b) iss
           = Inr (PDict (AList.update ''result''
                   (PList (PDict (AList.update ''badgeclass''
                       (PDict (AList.update ''issuer'' iss b)) d) # rest)) kvs)))
  \<and> (parent = None \<and> map_of kvs ''result'' = Some (PList (first # rest))
        \<and> PStr ''badgeclass'' \<notin> set xs
       \<longrightarrow> to_representation (PDict kvs) parent kwargs bc iss = Inr (PDict kvs))"
proof (cases parent)
  case None
  have alone: "to_representation (PDict kvs) None kwargs j iss
      = (case expand_pointer p (PList xs) j iss of
           Inl e \<Rightarrow> Inl e
         | Inr p1 \<Rightarrow> Inr (PDict (AList.update ''result'' (PList (p1 # rest)) kvs)))"
    if "map_of kvs ''result'' = Some (PList (p # rest))" for j p
    using that assms
    by (simp add: to_representation_def getitem_key_def getitem_index_def write_back_def
        split: sum.splits)
  have same: "AList.update ''result'' (PList (first # rest)) kvs = kvs"
    if "map_of kvs ''result'' = Some (PList (first # rest))"
    using that by (rule AList.update_triv)
  show ?thesis
    by (simp add: None alone expand_pointer_list expand_pointer_without_badgeclass same)
next
  case (Some q)
  have nested: "to_representation (PDict kvs) (Some q) kwargs j iss
      = expand_pointer (PDict kvs) (PList xs) j iss" for j
    using assms by (simp add: to_representation_def)
  show ?thesis
    by (simp add: Some nested expand_pointer_list)
qed


theorem to_representation_expands_witness:
  "to_representation
      (PDict [(''status'', PStr ''ok''), (''result'', PList [PDict [(''entityId'', PStr ''A'')]])])
      (None :: unit option)
      [(''expands'', PList [PStr ''badgeclass'', PStr ''issuer''])]
      (PDict [(''name'', PStr ''Badge'')]) (PDict [(''name'', PStr ''Org'')])
     = Inr (PDict [(''status'', PStr ''ok''),
          (''result'', PList [PDict [(''entityId'', PStr ''A''),
             (''badgeclass'', PDict [(''name'', PStr ''Badge''),
                                     (''issuer'', PDict [(''name'', PStr ''Org'')])])]])])
   \<and> to_representation (PDict [(''entityId'', PStr ''A'')]) (Some ())
      [(''expands'', PList [PStr ''issuer''])]
      (PDict [(''name'', PStr ''Badge'')]) (PDict [(''name'', PStr ''Org'')])
     = Inr (PDict [(''entityId'', PStr ''A'')])"
proof -
  have a: "to_representation
      (PDict [(''status'', PStr ''ok''), (''result'', PList [PDict [(''entityId'', PStr ''A'')]])])
      (None :: unit option)
      [(''expands'', PList [PStr ''badgeclass'', PStr ''issuer''])]
      (PDict [(''name'', PStr ''Badge'')]) (PDict [(''name'', PStr ''Org'')])
     = Inr (PDict [(''status'', PStr ''ok''),
          (''result'', PList [PDict [(''entityId'', PStr ''A''),
             (''badgeclass'', PDict [(''name'', PStr ''Badge''),
                                     (''issuer'', PDict [(''name'', PStr ''Org'')])])]])])"
    using to_representation_expands
      [where kwargs = "[(''expands'', PList [PStr ''badgeclass'', PStr ''issuer''])]"
         and xs = "[PStr ''badgeclass'', PStr ''issuer'']"
         and parent = "None :: unit option"
         and kvs = "[(''status'', PStr ''ok''), (''result'', PList [PDict [(''entityId'', PStr ''A'')]])]"
         and d = "[(''entityId'', PStr ''A'')]" and rest = "[]"
         and b = "[(''name'', PStr ''Badge'')]" and iss = "PDict [(''name'', PStr ''Org'')]"]
    by simp
  have b: "to_representation (PDict [(''entityId'', PStr ''A'')]) (Some ())
      [(''expands'', PList [PStr ''issuer''])]
      (PDict [(''name'', PStr ''Badge'')]) (PDict [(''name'', PStr ''Org'')])
     = Inr (PDict [(''entityId'', PStr ''A'')])"
    using to_representation_expands
      [where kwargs = "[(''expands'', PList [PStr ''issuer''])]"
         and xs = "[PStr ''issuer'']"
         and parent = "Some ()"
         and kvs = "[(''entityId'', PStr ''A'')]"
         and bc = "PDict [(''name'', PStr ''Badge'')]" and iss = "PDict [(''name'', PStr ''Org'')]"]
    by simp
  from a b show ?thesis by simp
qed

section \<open>Properties of the revoking views\<close>

text \<open>
  DELETE on an assertion with a body that is an object. When get\_object raises
  \<open>Http404\<close>, or the object-permission check of the view fails, the response is 404;
  otherwise, when revocation\_reason is missing or empty, a validation error (400)
  naming the field revocation\_reason is raised; otherwise, when revoke raises Django's
  ValidationError, as the revoke of the model does for an assertion that is already
  revoked, that error's message is raised as a validation error (400); otherwise the
  assertion is revoked, the table holds the revoked assertion, and the response is 200
  with its representation.
\<close>

lemma delete_outcomes:
   "(get_object w kwargs = None
       \<longrightarrow> BadgeInstanceDetail_delete get_object perm rvk ser kwargs body w = (Inl Http404, w)
         \<and> http_status (fst (BadgeInstanceDetail_delete get_object perm rvk ser kwargs body w))
             = 404)
  \<and> (get_object w kwargs = Some a \<and> \<not> perm a
       \<longrightarrow> BadgeInstanceDetail_delete get_object perm rvk ser kwargs body w
           = (Inr \<lparr>status = 404, data = PNone\<rparr>, w))
  \<and> (get_object w kwargs = Some a \<and> perm a \<and> \<not> truthy (dict_get rd ''revocation_reason'')
       \<longrightarrow> BadgeInstanceDetail_delete get_object perm rvk ser kwargs (PDict rd) w
           = (Inl (ValidationError
                (PDict [(''revocation_reason'', PStr ''This field is required'')])), w)
         \<and> http_status (fst (BadgeInstanceDetail_delete get_object perm rvk ser kwargs
                                (PDict rd) w)) = 400)
  \<and> (get_object w kwargs = Some a \<and> perm a \<and> truthy (dict_get rd ''revocation_reason'')
        \<and> rvk a (dict_get rd ''revocation_reason'') w = (Inl (Raised_Django e), w1)
       \<longrightarrow> BadgeInstanceDetail_delete get_object perm rvk ser kwargs (PDict rd) w
           = (Inl (ValidationError (PStr (message e))), w1)
         \<and> http_status (fst (BadgeInstanceDetail_delete get_object perm rvk ser kwargs
                                (PDict rd) w)) = 400)
  \<and> (get_object w kwargs = Some a \<and> perm a \<and> truthy (dict_get rd ''revocation_reason'')
        \<and> rvk a (dict_get rd ''revocation_reason'') w = (Inr a1, w1)
       \<longrightarrow> BadgeInstanceDetail_delete get_object perm rvk ser kwargs (PDict rd) w
           = (Inr \<lparr>status = 200, data = ser a1\<rparr>, w1))
  \<and> (get_object w kwargs = Some a \<and> perm a \<and> truthy (dict_get rd ''revocation_reason'')
        \<and> revoked a
       \<longrightarrow> BadgeInstanceDetail_delete get_object perm revoke_model ser kwargs (PDict rd) w
           = (Inl (ValidationError (PStr ''Assertion is already revoked'')), w))
  \<and> (get_object w kwargs = Some a \<and> perm a \<and> truthy (dict_get rd ''revocation_reason'')
        \<and> \<not> revoked a
       \<longrightarrow> fst (BadgeInstanceDetail_delete get_object perm revoke_model ser kwargs (PDict rd) w)
           = Inr \<lparr>status = 200,
                  data = ser (a\<lparr>revoked := True,
                                revocation_reason := dict_get rd ''revocation_reason''\<rparr>)\<rparr>
         \<and> lookup_instance (entity_id a)
              (snd (BadgeInstanceDetail_delete get_object perm revoke_model ser kwargs
                      (PDict rd) w))
             = Some (a\<lparr>revoked := True,
                        revocation_reason := dict_get rd ''revocation_reason''\<rparr>))"
proof -
  let ?a1 = "a\<lparr>revoked := True, revocation_reason := dict_get rd ''revocation_reason''\<rparr>"
  have stored: "lookup_instance (entity_id a) (save ?a1 w) = Some ?a1"
    using lookup_instance_save [of ?a1 w] by simp
  show ?thesis
    by (simp add: BadgeInstanceDetail_delete_def revoke_model_def Let_def py_get_def stored)
qed

text \<open>
  C6 (the body of the request). DELETE on an assertion that get\_object finds and that
  the request may act on, with a body that is not an object and so holds no
  revocation\_reason: \<open>request.data.get\<close> raises \<open>AttributeError\<close>, nothing
  handles it and the response is 500, where a missing revocation\_reason is to give the
  validation error (400).
\<close>

theorem delete_body_not_object:
  assumes "get_object w kwargs = Some a" and "perm a" and "\<forall>rd. body \<noteq> PDict rd"
  shows "BadgeInstanceDetail_delete get_object perm rvk ser kwargs body w
           = (Inl (Uncaught_Python AttributeError), w)
       \<and> http_status (fst (BadgeInstanceDetail_delete get_object perm rvk ser kwargs body w))
           = 500"
  using assms
  by (cases body) (simp_all add: BadgeInstanceDetail_delete_def py_get_def)

theorem delete_body_not_object_witness:
  "BadgeInstanceDetail_delete (framework_get_object sample_permission) sample_permission
      revoke_model sample_serializer_data [(''entity_id'', PStr ''A'')] (PList [])
      (sample_world\<lparr>instances := sample_rows\<rparr>)
    = (Inl (Uncaught_Python AttributeError), sample_world\<lparr>instances := sample_rows\<rparr>)
   \<and> http_status (fst (BadgeInstanceDetail_delete (framework_get_object sample_permission)
        sample_permission revoke_model sample_serializer_data [(''entity_id'', PStr ''A'')]
        (PList []) (sample_world\<lparr>instances := sample_rows\<rparr>))) = 500"
proof -
  have g: "framework_get_object sample_permission (sample_world\<lparr>instances := sample_rows\<rparr>)
      [(''entity_id'', PStr ''A'')] = Some (sample_assertion ''A'')"
    by (simp add: framework_get_object_def lookup_instance_def sample_rows_def
        sample_assertion_def sample_permission_def)
  have p: "sample_permission (sample_assertion ''A'')"
    by (simp add: sample_permission_def sample_assertion_def)
  have b: "\<forall>rd. PList [] \<noteq> PDict rd" by simp
  from delete_body_not_object [where get_object = "framework_get_object sample_permission"
      and perm = sample_permission and rvk = revoke_model and ser = sample_serializer_data
      and body = "PList []", OF g p b]
  show ?thesis .
qed













section \<open>Properties of the change feed\<close>

lemma set_outer: "set (outer xs) = (if xs = [] then {None} else Some ` set xs)"
  by (simp add: outer_def)

lemma outer_nonempty: "\<exists>x. x \<in> set (outer xs)"
  by (auto simp: set_outer)

lemma Some_in_outer: "(Some x \<in> set (outer xs)) = (x \<in> set xs)"
  by (auto simp: set_outer)

lemma in_joined_rows:
  "((a, t, s, m) \<in> set (joined_rows w)) =
     (a \<in> set (instances w)
      \<and> t \<in> set (outer (filter (\<lambda>tk. user a = Some (token_user tk)) (tokens w)))
      \<and> s \<in> set (case t of None \<Rightarrow> [None] | Some tk \<Rightarrow> outer (scopes tk))
      \<and> m \<in> set (outer (filter (\<lambda>st. staff_issuer st = issuer a) (staffs w))))"
  by (auto simp: joined_rows_def)

lemma visible_iff_row:
  assumes "a \<in> set (instances w)"
  shows "visible_to w u a = (\<exists>t s m. (a, t, s, m) \<in> set (joined_rows w) \<and> feed_expr u (a, t, s, m))"
proof
  assume "visible_to w u a"
  then consider
    (token) tk sc where "tk \<in> set (tokens w)" "user a = Some (token_user tk)"
      "application_user tk = Some u" "sc \<in> set (scopes tk)"
      "sc = ''r:backpack'' \<or> sc = ''rw:backpack''"
    | (staff) st where "st \<in> set (staffs w)" "staff_issuer st = issuer a" "staff_user st = u"
    by (auto simp: visible_to_def list_ex_iff)
  then show "\<exists>t s m. (a, t, s, m) \<in> set (joined_rows w) \<and> feed_expr u (a, t, s, m)"
  proof cases
    case token
    obtain m where m: "m \<in> set (outer (filter (\<lambda>st. staff_issuer st = issuer a) (staffs w)))"
      using outer_nonempty by blast
    have "(a, Some tk, Some sc, m) \<in> set (joined_rows w)"
      using assms token m by (simp add: in_joined_rows Some_in_outer)
    moreover have "feed_expr u (a, Some tk, Some sc, m)"
      using token
      by (auto simp: feed_expr_def Q_or_def Q_and_def Q_accesstoken_application_user_def
          Q_accesstokenscope_scope_in_def)
    ultimately show ?thesis by blast
  next
    case staff
    obtain t where t: "t \<in> set (outer (filter (\<lambda>tk. user a = Some (token_user tk)) (tokens w)))"
      using outer_nonempty by blast
    obtain s where s: "s \<in> set (case t of None \<Rightarrow> [None] | Some tk \<Rightarrow> outer (scopes tk))"
      using outer_nonempty by (cases t) auto
    have "(a, t, s, Some st) \<in> set (joined_rows w)"
      using assms staff t s by (simp add: in_joined_rows Some_in_outer)
    moreover have "feed_expr u (a, t, s, Some st)"
      using staff by (simp add: feed_expr_def Q_or_def Q_issuerstaff_user_def)
    ultimately show ?thesis by blast
  qed
next
  assume "\<exists>t s m. (a, t, s, m) \<in> set (joined_rows w) \<and> feed_expr u (a, t, s, m)"
  then obtain t s m where row: "(a, t, s, m) \<in> set (joined_rows w)"
    and e: "feed_expr u (a, t, s, m)" by blast
  from e consider
    (token) tk sc where "t = Some tk" "s = Some sc" "application_user tk = Some u"
      "sc = ''r:backpack'' \<or> sc = ''rw:backpack''"
    | (staff) st where "m = Some st" "staff_user st = u"
    by (auto simp: feed_expr_def Q_or_def Q_and_def Q_accesstoken_application_user_def
        Q_accesstokenscope_scope_in_def Q_issuerstaff_user_def split: option.splits)
  then show "visible_to w u a"
  proof cases
    case token
    with row have "tk \<in> set (tokens w)" "user a = Some (token_user tk)" "sc \<in> set (scopes tk)"
      by (simp_all add: in_joined_rows Some_in_outer)
    with token show ?thesis
      by (auto simp: visible_to_def list_ex_iff)
  next
    case staff
    with row have "st \<in> set (staffs w)" "staff_issuer st = issuer a"
      by (simp_all add: in_joined_rows Some_in_outer)
    with staff show ?thesis
      by (auto simp: visible_to_def list_ex_iff)
  qed
qed

lemma row_instance: "(a, t, s, m) \<in> set (joined_rows w) \<Longrightarrow> a \<in> set (instances w)"
  by (simp add: in_joined_rows)

lemma get_queryset_set:
  "set (AssertionsChangedSince_get_queryset u since w) =
     {a \<in> set (instances w). visible_to w u a
        \<and> (case since of None \<Rightarrow> True | Some t \<Rightarrow> t < updated_at a)}"
proof -
  have expr: "AssertionsChangedSince_get_queryset u since w =
      remdups (map fst (filter (\<lambda>r. feed_expr u r
         \<and> (case since of None \<Rightarrow> True | Some t \<Rightarrow> t < updated_at (fst r))) (joined_rows w)))"
    by (cases since)
       (auto simp: AssertionsChangedSince_get_queryset_def Let_def feed_expr_def Q_and_def
          Q_updated_at_gt_def intro!: arg_cong [where f = remdups] arg_cong [where f = "map fst"]
          filter_cong)
  show ?thesis
  proof (intro set_eqI iffI)
    fix a
    assume "a \<in> set (AssertionsChangedSince_get_queryset u since w)"
    then obtain t s m where row: "(a, t, s, m) \<in> set (joined_rows w)"
      and e: "feed_expr u (a, t, s, m)"
      and d: "case since of None \<Rightarrow> True | Some x \<Rightarrow> x < updated_at a"
      by (auto simp: expr)
    from row have inst: "a \<in> set (instances w)" by (rule row_instance)
    with row e have "visible_to w u a" using visible_iff_row [of a w u] by blast
    with inst d show "a \<in> {a \<in> set (instances w). visible_to w u a
        \<and> (case since of None \<Rightarrow> True | Some t \<Rightarrow> t < updated_at a)}" by simp
  next
    fix a
    assume "a \<in> {a \<in> set (instances w). visible_to w u a
        \<and> (case since of None \<Rightarrow> True | Some t \<Rightarrow> t < updated_at a)}"
    then have inst: "a \<in> set (instances w)" and v: "visible_to w u a"
      and d: "case since of None \<Rightarrow> True | Some x \<Rightarrow> x < updated_at a" by auto
    from inst v obtain t s m where "(a, t, s, m) \<in> set (joined_rows w)" "feed_expr u (a, t, s, m)"
      using visible_iff_row [of a w u] by blast
    with d have "(a, t, s, m) \<in> set (filter (\<lambda>r. feed_expr u r
         \<and> (case since of None \<Rightarrow> True | Some t \<Rightarrow> t < updated_at (fst r))) (joined_rows w))"
      by (simp split: option.splits)
    then have "fst (a, t, s, m) \<in> fst ` set (filter (\<lambda>r. feed_expr u r
         \<and> (case since of None \<Rightarrow> True | Some t \<Rightarrow> t < updated_at (fst r))) (joined_rows w))"
      by (rule imageI)
    then show "a \<in> set (AssertionsChangedSince_get_queryset u since w)"
      by (simp add: expr)
  qed
qed

lemma joined_rows_log_effect: "joined_rows (log_effect e w) = joined_rows w"
  by (simp add: joined_rows_def log_effect_def)

lemma get_queryset_log_effect:
  "AssertionsChangedSince_get_queryset u since (log_effect e w)
     = AssertionsChangedSince_get_queryset u since w"
  by (simp add: AssertionsChangedSince_get_queryset_def joined_rows_log_effect)

lemma sample_feed_queryset:
  "AssertionsChangedSince_get_queryset ''app'' (Some 20) sample_feed_world
     = [(sample_assertion ''B'')\<lparr>updated_at := 30\<rparr>,
        (sample_assertion ''D'')\<lparr>user := None, issuer := ''issuer-3'', updated_at := 50\<rparr>]"
  by code_simp

text \<open>
  The change feed for a since parameter that parses to a time the database takes: the
  assertions of the queryset are exactly the assertions visible to the requesting user
  whose updated\_at is after since, each once, and the response is 200 over that
  queryset with the timestamp of the clock, read before the query is run. A since
  parameter on which isoparse raises ValueError gives the structured error with status
  400.
\<close>

lemma changed_since_feed:
  "set (AssertionsChangedSince_get_queryset u (Some t) w)
     = {a \<in> set (instances w). visible_to w u a \<and> t < updated_at a}
   \<and> distinct (AssertionsChangedSince_get_queryset u (Some t) w)
   \<and> (get_opt GET ''since'' = Some s \<and> isoparse s = Raises_ValueError
      \<longrightarrow> AssertionsChangedSince_get isoparse rep isoformat err srep GET u w
          = (Inr \<lparr>status = 400,
              data = err [(''since'', PList [PStr ''must be ISO-8601 format with time zone''])]
                       [] False ''bad request''\<rparr>, w))
   \<and> (get_opt GET ''since'' = Some s \<and> isoparse s = Parsed t \<and> rep t
      \<longrightarrow> fst (AssertionsChangedSince_get isoparse rep isoformat err srep GET u w)
          = Inr \<lparr>status = 200,
             data = PDict (AList.update ''timestamp'' (PStr (isoformat (clock w)))
                      (srep (AssertionsChangedSince_get_queryset u (Some t) w)))\<rparr>
        \<and> effects (snd (AssertionsChangedSince_get isoparse rep isoformat err srep GET u w))
            = effects w @ [Clock_read (clock w), Query_run]
        \<and> instances (snd (AssertionsChangedSince_get isoparse rep isoformat err srep GET u w))
            = instances w)
   \<and> (get_opt GET ''since'' = Some s \<and> isoparse s = Parsed t \<and> \<not> rep t
      \<longrightarrow> fst (AssertionsChangedSince_get isoparse rep isoformat err srep GET u w)
          = Inl (Uncaught_Python OverflowError))"
proof -
  have rows: "set (AssertionsChangedSince_get_queryset u (Some t) w)
     = {a \<in> set (instances w). visible_to w u a \<and> t < updated_at a}"
    using get_queryset_set [of u "Some t" w] by simp
  have once: "distinct (AssertionsChangedSince_get_queryset u (Some t) w)"
    by (simp add: AssertionsChangedSince_get_queryset_def Let_def)
  have bad: "AssertionsChangedSince_get isoparse rep isoformat err srep GET u w
          = (Inr \<lparr>status = 400,
              data = err [(''since'', PList [PStr ''must be ISO-8601 format with time zone''])]
                       [] False ''bad request''\<rparr>, w)"
    if "get_opt GET ''since'' = Some s" "isoparse s = Raises_ValueError"
    using that by (simp add: AssertionsChangedSince_get_def)
  have good: "AssertionsChangedSince_get isoparse rep isoformat err srep GET u w
      = (Inr \<lparr>status = 200,
          data = PDict (AList.update ''timestamp'' (PStr (isoformat (clock w)))
                   (srep (AssertionsChangedSince_get_queryset u (Some t) w)))\<rparr>,
         log_effect Query_run (log_effect (Clock_read (clock w)) w))"
    if "get_opt GET ''since'' = Some s" "isoparse s = Parsed t" "rep t"
    using that
    by (simp add: AssertionsChangedSince_get_def PaginatedAssertionsSinceSerializer_init_def
        timezone_now_def CursorPaginatedListSerializer_init_def lazy_queryset_def
        PaginatedAssertionsSinceSerializer_to_representation_def get_queryset_log_effect)
  have over: "fst (AssertionsChangedSince_get isoparse rep isoformat err srep GET u w)
          = Inl (Uncaught_Python OverflowError)"
    if "get_opt GET ''since'' = Some s" "isoparse s = Parsed t" "\<not> rep t"
    using that
    by (simp add: AssertionsChangedSince_get_def PaginatedAssertionsSinceSerializer_init_def
        timezone_now_def CursorPaginatedListSerializer_init_def lazy_queryset_def)
  from rows once bad good over show ?thesis
    by (simp add: log_effect_def)
qed

lemma changed_since_feed_sample:
  "fst (AssertionsChangedSince_get sample_isoparse sample_representable sample_isoformat
      sample_error_data sample_list_representation
      [(''since'', [''1970-01-01T00:00:20+00:00''])] ''app'' sample_feed_world)
    = Inr \<lparr>status = 200,
       data = PDict [(''result'', PList [PStr ''B'', PStr ''D'']),
                     (''timestamp'', PStr ''1970-01-01T00:01:40+00:00'')]\<rparr>
   \<and> effects (snd (AssertionsChangedSince_get sample_isoparse sample_representable
      sample_isoformat sample_error_data sample_list_representation
      [(''since'', [''1970-01-01T00:00:20+00:00''])] ''app'' sample_feed_world))
    = [Clock_read 100, Query_run]
   \<and> AssertionsChangedSince_get sample_isoparse sample_representable sample_isoformat
      sample_error_data sample_list_representation [(''since'', [''yesterday''])] ''app''
      sample_feed_world
    = (Inr \<lparr>status = 400,
        data = PDict [(''status'', PDict [(''success'', PBool False),
                                         (''description'', PStr ''bad request'')]),
                      (''fieldErrors'', PDict [(''since'',
                          PList [PStr ''must be ISO-8601 format with time zone''])]),
                      (''validationErrors'', PList [])]\<rparr>,
       sample_feed_world)"
proof -
  have p1: "sample_isoparse ''1970-01-01T00:00:20+00:00'' = Parsed 20"
    by (simp add: sample_isoparse_def)
  have p2: "sample_isoparse ''yesterday'' = Raises_ValueError"
    by (simp add: sample_isoparse_def)
  have c: "clock sample_feed_world = 100" "effects sample_feed_world = []"
    by (simp_all add: sample_feed_world_def)
  note ok = changed_since_feed [where GET = "[(''since'', [''1970-01-01T00:00:20+00:00''])]"
      and s = "''1970-01-01T00:00:20+00:00''" and t = 20 and isoparse = sample_isoparse
      and rep = sample_representable
      and isoformat = sample_isoformat and err = sample_error_data
      and srep = sample_list_representation and u = "''app''" and w = sample_feed_world]
  note bad = changed_since_feed [where GET = "[(''since'', [''yesterday''])]"
      and s = "''yesterday''" and isoparse = sample_isoparse and rep = sample_representable
      and isoformat = sample_isoformat and err = sample_error_data
      and srep = sample_list_representation and u = "''app''" and w = sample_feed_world]
  from ok have a: "fst (AssertionsChangedSince_get sample_isoparse sample_representable
      sample_isoformat sample_error_data sample_list_representation
      [(''since'', [''1970-01-01T00:00:20+00:00''])] ''app'' sample_feed_world)
    = Inr \<lparr>status = 200,
       data = PDict [(''result'', PList [PStr ''B'', PStr ''D'']),
                     (''timestamp'', PStr ''1970-01-01T00:01:40+00:00'')]\<rparr>
   \<and> effects (snd (AssertionsChangedSince_get sample_isoparse sample_representable
      sample_isoformat sample_error_data sample_list_representation
      [(''since'', [''1970-01-01T00:00:20+00:00''])] ''app'' sample_feed_world))
    = [Clock_read 100, Query_run]"
    by (simp add: get_opt_def p1 c sample_feed_queryset sample_list_representation_def
        sample_isoformat_def sample_assertion_def sample_representable_def)
  from bad have b: "AssertionsChangedSince_get sample_isoparse sample_representable
      sample_isoformat sample_error_data sample_list_representation
      [(''since'', [''yesterday''])] ''app'' sample_feed_world
    = (Inr \<lparr>status = 400,
        data = PDict [(''status'', PDict [(''success'', PBool False),
                                         (''description'', PStr ''bad request'')]),
                      (''fieldErrors'', PDict [(''since'',
                          PList [PStr ''must be ISO-8601 format with time zone''])]),
                      (''validationErrors'', PList [])]\<rparr>,
       sample_feed_world)"
    by (simp add: get_opt_def p2 sample_error_data_def)
  from a b show ?thesis by simp
qed

text \<open>
  C5 (a since parameter that isoparse does not parse). When isoparse raises an exception
  other than ValueError on the since parameter, as it does on \<open>9999-12-31T24:00\<close>,
  the handler of the view lets it pass: the request ends with that exception and the
  response is 500, neither the assertions changed since nor the structured error with
  status 400.
\<close>

theorem changed_since_unhandled_parse_error:
  assumes "get_opt GET ''since'' = Some s" and "isoparse s = Raises e"
  shows "AssertionsChangedSince_get isoparse rep isoformat err srep GET u w
           = (Inl (Uncaught_Python e), w)
       \<and> http_status (fst (AssertionsChangedSince_get isoparse rep isoformat err srep GET u w))
           = 500"
  using assms by (simp add: AssertionsChangedSince_get_def)

theorem changed_since_unhandled_parse_error_witness:
  "AssertionsChangedSince_get sample_isoparse sample_representable sample_isoformat
      sample_error_data sample_list_representation [(''since'', [''9999-12-31T24:00''])] ''app''
      sample_feed_world
    = (Inl (Uncaught_Python OverflowError), sample_feed_world)
   \<and> http_status (fst (AssertionsChangedSince_get sample_isoparse sample_representable
        sample_isoformat sample_error_data sample_list_representation
        [(''since'', [''9999-12-31T24:00''])] ''app'' sample_feed_world)) = 500"
proof -
  have g: "get_opt [(''since'', [''9999-12-31T24:00''])] ''since'' = Some ''9999-12-31T24:00''"
    by (simp add: get_opt_def)
  have p: "sample_isoparse ''9999-12-31T24:00'' = Raises OverflowError"
    by (simp add: sample_isoparse_def)
  from changed_since_unhandled_parse_error [where isoparse = sample_isoparse
      and rep = sample_representable and isoformat = sample_isoformat
      and err = sample_error_data and srep = sample_list_representation
      and u = "''app''" and w = sample_feed_world, OF g p]
  show ?thesis .
qed

end
